theory Spec2Isabelle
  imports Main "HOL-Library.Sublist" "HOL-Library.Multiset"
begin

section \<open>Python values and errors\<close>

text \<open>
  The program is one Python module, \<^verbatim>\<open>librarian.py\<close>. Every exception the modelled
  code can raise is a constructor of \<open>py_error\<close>; a \<open>ValueError\<close> carries the message
  the source passes as its last argument, so that a theorem can say which check fired.
\<close>

datatype py_error =
    ValueError string
  | TypeError
  | AttributeError
  | NotImplementedError
  | UnpicklingError

text \<open>
  \<^verbatim>\<open>s.startswith(p)\<close> and \<^verbatim>\<open>sub in s\<close> on \<^verbatim>\<open>str\<close>: a prefix test and a test for a
  contiguous substring.
\<close>

definition startswith :: "string \<Rightarrow> string \<Rightarrow> bool" where
  "startswith s p = prefix p s"

definition str_in :: "string \<Rightarrow> string \<Rightarrow> bool" where
  "str_in sub s = sublist sub s"

text \<open>
  \<^verbatim>\<open>str.isascii()\<close>: every character of the string has a code below 128.
\<close>

definition isascii :: "string \<Rightarrow> bool" where
  "isascii s = list_all (\<lambda>c. (of_char c :: nat) < 128) s"

text \<open>
  \<^verbatim>\<open>str.lower()\<close> on an ASCII string: the letters \<open>A\<close> to \<open>Z\<close> (codes 65 to 90) move
  to \<open>a\<close> to \<open>z\<close>, every other character stays. Outside ASCII \<^verbatim>\<open>str.lower()\<close> lowers
  more letters than these, so \<open>lower\<close> stands for it on strings with \<open>isascii\<close> only,
  and every general statement about a lowered name assumes \<open>isascii\<close> of that name.
\<close>

definition lower_char :: "char \<Rightarrow> char" where
  "lower_char c =
     (let n = (of_char c :: nat) in if 65 \<le> n \<and> n \<le> 90 then char_of (n + 32) else c)"

definition lower :: "string \<Rightarrow> string" where
  "lower s = map lower_char s"

text \<open>
  \<^verbatim>\<open>os.path.join(path, b)\<close> of \<^verbatim>\<open>posixpath\<close>, for two arguments: an absolute \<open>b\<close> or an
  empty \<open>path\<close> gives \<open>b\<close>; otherwise \<open>b\<close> is appended, after a separator unless \<open>path\<close>
  already ends with one.
\<close>

definition join :: "string \<Rightarrow> string \<Rightarrow> string" where
  "join path b =
     (if startswith b ''/'' \<or> path = [] then b
      else if suffix ''/'' path then path @ b
      else path @ ''/'' @ b)"

section \<open>The run's configuration\<close>

text \<open>
  \<^verbatim>\<open>AppConfig\<close>, the dataclass behind the global \<^verbatim>\<open>APP_CONFIG\<close>. The functions that read
  the global take the configuration as an argument.
\<close>

record AppConfig =
  home_dir :: string
  force_install :: bool
  ignore_compromised :: bool
  always_yes :: bool
  verbose :: bool

section \<open>Vendors and dependencies\<close>

text \<open>
  \<^verbatim>\<open>Vendor\<close> declares its attributes by annotation only, so an attribute exists on an
  instance only once something has assigned it: a field is \<open>None\<close> while it has not
  been assigned (reading it raises \<^verbatim>\<open>AttributeError\<close>). \<^verbatim>\<open>LocalVendor\<close> adds the class
  attribute \<^verbatim>\<open>_locations\<close>.
\<close>

record Vendor =
  vendor_name :: "string option"
  vendor_version :: "string option"
  vendor_is_secure :: "string option"
  vendor_login_method :: "string option"
  vendor_credentials :: "(string \<times> string) list"

record LocalVendor = Vendor +
  locations :: "string list"

record Dependency =
  dep_name :: string
  dep_version :: string
  dep_vendor :: Vendor
  dep_license :: string
  dep_machine_name :: string
  dep_description :: string

text \<open>
  The Python values that occur as dictionary values in the modelled code: strings,
  booleans, integers, \<^verbatim>\<open>None\<close>, and a \<^verbatim>\<open>Vendor\<close> object.
\<close>

datatype py_value = PyStr string | PyBool bool | PyInt int | PyNone | PyVendor Vendor

text \<open>
  \<^verbatim>\<open>json.dumps\<close> of a dictionary with string keys. The text it returns is represented by
  the JSON value the text denotes (what \<^verbatim>\<open>json.loads\<close> reads back). The default encoder
  knows strings, booleans, integers and \<^verbatim>\<open>None\<close>; on any other object it raises
  \<^verbatim>\<open>TypeError\<close> (object is not JSON serializable).
\<close>

datatype json = JString string | JBool bool | JNumber int | JNull | JObject "(string \<times> json) list"

fun json_encode :: "py_value \<Rightarrow> py_error + json" where
  "json_encode (PyStr s) = Inr (JString s)"
| "json_encode (PyBool b) = Inr (JBool b)"
| "json_encode (PyInt i) = Inr (JNumber i)"
| "json_encode PyNone = Inr JNull"
| "json_encode (PyVendor v) = Inl TypeError"

fun json_encode_items :: "(string \<times> py_value) list \<Rightarrow> py_error + (string \<times> json) list" where
  "json_encode_items [] = Inr []"
| "json_encode_items ((k, v) # kvs) =
     (case json_encode v of
        Inl e \<Rightarrow> Inl e
      | Inr j \<Rightarrow> (case json_encode_items kvs of Inl e \<Rightarrow> Inl e | Inr js \<Rightarrow> Inr ((k, j) # js)))"

definition dumps :: "(string \<times> py_value) list \<Rightarrow> py_error + json" where
  "dumps d = (case json_encode_items d of Inl e \<Rightarrow> Inl e | Inr js \<Rightarrow> Inr (JObject js))"

text \<open>
  \<^verbatim>\<open>Dependency.to_json\<close>:
  \<^verbatim>\<open>dumps({"name": self.name, "version": self.vendor, "vendor": self.vendor._name, "license": self.license})\<close>.
  The dictionary is built first (reading \<^verbatim>\<open>self.vendor._name\<close>), then passed to
  \<^verbatim>\<open>dumps\<close>. The value under \<^verbatim>\<open>"version"\<close> is \<^verbatim>\<open>self.vendor\<close>, as the source has it.
\<close>

definition to_json :: "Dependency \<Rightarrow> py_error + json" where
  "to_json self =
     (case vendor_name (dep_vendor self) of
        None \<Rightarrow> Inl AttributeError
      | Some vname \<Rightarrow>
          dumps [(''name'', PyStr (dep_name self)), (''version'', PyVendor (dep_vendor self)),
                 (''vendor'', PyStr vname), (''license'', PyStr (dep_license self))])"

text \<open>
  \<^verbatim>\<open>typing.overload\<close> returns, for every function it decorates, the same dummy function,
  which raises \<^verbatim>\<open>NotImplementedError\<close> when called. \<^verbatim>\<open>final\<close>, \<^verbatim>\<open>override\<close> and
  \<^verbatim>\<open>abstractmethod\<close> only mark the function they are given. In \<^verbatim>\<open>LocalVendor\<close> every
  definition of \<^verbatim>\<open>register_path\<close> and of \<^verbatim>\<open>find\<close> is decorated with \<^verbatim>\<open>overload\<close> and no
  undecorated definition follows, so both names are bound to the dummy. \<^verbatim>\<open>Vendor\<close> derives
  from \<^verbatim>\<open>object\<close>, not from \<^verbatim>\<open>ABC\<close>, so \<^verbatim>\<open>LocalVendor\<close> can be instantiated. The method
  \<^verbatim>\<open>find\<close> is \<open>LocalVendor_find\<close> here (\<open>find\<close> is a function on lists in the logic); its
  version is \<open>None\<close> in the call with a name only.
\<close>

definition overload_dummy :: "py_error + 'a" where
  "overload_dummy = Inl NotImplementedError"

definition register_path :: "LocalVendor \<Rightarrow> string list \<Rightarrow> py_error + LocalVendor" where
  "register_path self path = overload_dummy"

definition LocalVendor_find :: "LocalVendor \<Rightarrow> string \<Rightarrow> string option \<Rightarrow> py_error + Dependency option" where
  "LocalVendor_find self dname version = overload_dummy"

section \<open>The project scanner\<close>

text \<open>\<^verbatim>\<open>CACHE_FOLDERS\<close>, the module constant.\<close>

definition CACHE_FOLDERS :: "string list" where
  "CACHE_FOLDERS = [''.tox'', ''.mypy_cache'', ''.egg-info'', ''.pytest_cache'']"

text \<open>
  The directory tree the scanner reads: a directory holds the names of its entries that
  are not directories, and its subdirectories by name, in the order the operating system
  lists them. Symbolic links and unreadable directories are left out of the model.
\<close>

datatype fs_dir = Dir (files: "string list") (subdirs: "(string \<times> fs_dir) list")

text \<open>\<^verbatim>\<open>os.listdir(path)\<close>: the names of all entries of the directory.\<close>

definition listdir :: "fs_dir \<Rightarrow> string list" where
  "listdir d = files d @ map fst (subdirs d)"

text \<open>
  \<^verbatim>\<open>os.walk(topdir)\<close>, top-down: the triple \<open>(dirpath, dirnames, filenames)\<close> of the
  directory itself, then the walk of each subdirectory under \<open>join topdir dname\<close>.
\<close>

fun walk :: "string \<Rightarrow> fs_dir \<Rightarrow> (string \<times> string list \<times> string list) list"
  and walk_subdirs :: "string \<Rightarrow> (string \<times> fs_dir) list \<Rightarrow> (string \<times> string list \<times> string list) list"
where
  "walk topdir (Dir fs ds) = (topdir, map fst ds, fs) # walk_subdirs topdir ds"
| "walk_subdirs topdir [] = []"
| "walk_subdirs topdir ((dname, d) # ds) = walk (join topdir dname) d @ walk_subdirs topdir ds"

text \<open>
  The directories of a tree with the path \<^verbatim>\<open>os.walk\<close> gives each of them: the same
  traversal as \<open>walk\<close>, keeping the directory itself. It is used to speak about the
  descendants of a directory.
\<close>

fun dirs_under :: "string \<Rightarrow> fs_dir \<Rightarrow> (string \<times> fs_dir) list"
  and dirs_under_subdirs :: "string \<Rightarrow> (string \<times> fs_dir) list \<Rightarrow> (string \<times> fs_dir) list"
where
  "dirs_under topdir (Dir fs ds) = (topdir, Dir fs ds) # dirs_under_subdirs topdir ds"
| "dirs_under_subdirs topdir [] = []"
| "dirs_under_subdirs topdir ((dname, d) # ds) = dirs_under (join topdir dname) d @ dirs_under_subdirs topdir ds"

text \<open>
  The names of directory entries of a real file system are not empty and hold no
  separator.
\<close>

fun wf_fs :: "fs_dir \<Rightarrow> bool"
  and wf_subdirs :: "(string \<times> fs_dir) list \<Rightarrow> bool"
where
  "wf_fs (Dir fs ds) = wf_subdirs ds"
| "wf_subdirs [] = True"
| "wf_subdirs ((dname, d) # ds) = (dname \<noteq> [] \<and> CHR ''/'' \<notin> set dname \<and> wf_fs d \<and> wf_subdirs ds)"

text \<open>
  The inner loop of \<^verbatim>\<open>load_project\<close>:
  \<^verbatim>\<open>skip = False; for cache_folder in CACHE_FOLDERS: if cache_folder in dirpath: skip = True\<close>.
\<close>

definition skip_path :: "string \<Rightarrow> bool" where
  "skip_path dirpath =
     fold (\<lambda>cache_folder skip. if str_in cache_folder dirpath then True else skip) CACHE_FOLDERS False"

text \<open>
  The outer loop over the walk: a skipped directory is passed over (\<^verbatim>\<open>continue\<close>), a
  directory whose files include \<^verbatim>\<open>README.md\<close> is appended to \<open>positions\<close>.
\<close>

fun collect_positions :: "(string \<times> string list \<times> string list) list \<Rightarrow> string list \<Rightarrow> string list" where
  "collect_positions [] positions = positions"
| "collect_positions ((dirpath, dirname, fnames) # rest) positions =
     (if skip_path dirpath then collect_positions rest positions
      else if ''README.md'' \<in> set fnames then collect_positions rest (positions @ [dirpath])
      else collect_positions rest positions)"

text \<open>
  The classes \<^verbatim>\<open>LanguageSpecs\<close> and \<^verbatim>\<open>Module\<close>. Of a \<^verbatim>\<open>LanguageSpecs\<close> the data
  fields are kept; its callables (\<^verbatim>\<open>on_start\<close>, \<^verbatim>\<open>is_language\<close>, the loaders and the
  callbacks) are called by no function of the module outside the class itself. A
  dependency declaration of a module is a dictionary, kept as an association list.
\<close>

record LanguageSpecs =
  language_name :: string
  file_extensions :: "string list"
  comments :: "string list"
  is_docs_after_func :: bool
  project_files :: "string list"
  vendors_API :: "Vendor list"

record Module =
  mod_name :: string
  mod_language :: string
  mod_language_specs :: "LanguageSpecs option"
  mod_project_files :: "string list"
  mod_dependencies :: "(string \<times> string) list list"

text \<open>\<^verbatim>\<open>load_module(path)\<close> is \<^verbatim>\<open>Module(path, path, None)\<close>, the two lists at their defaults.\<close>

definition load_module :: "string \<Rightarrow> Module" where
  "load_module path =
     \<lparr>mod_name = path, mod_language = path, mod_language_specs = None,
      mod_project_files = [], mod_dependencies = []\<rparr>"

text \<open>
  \<^verbatim>\<open>load_project(path)\<close>, on the directory \<open>root\<close> found at \<open>path\<close>: the check of the
  top-level \<^verbatim>\<open>README.md\<close>, the walk, and one module per recorded position.
\<close>

definition load_project :: "string \<Rightarrow> fs_dir \<Rightarrow> py_error + Module list" where
  "load_project path root =
     (if ''README.md'' \<notin> set (listdir root) then Inl (ValueError ''Path no containing README.md'')
      else Inr (map load_module (collect_positions (walk path root) [])))"

section \<open>Document cells\<close>

text \<open>
  \<^verbatim>\<open>DocumentCellType\<close>, the enumeration built from the seven base names and
  \<^verbatim>\<open>header_1\<close> to \<^verbatim>\<open>header_10\<close>. The constructors carry the prefix \<open>ty\<close>, since
  \<open>image\<close> and \<open>field\<close> are names of the logic.
\<close>

datatype DocumentCellType =
    ty_paragraph | ty_link_text | ty_link_external | ty_table | ty_code | ty_image | ty_field
  | ty_header_1 | ty_header_2 | ty_header_3 | ty_header_4 | ty_header_5
  | ty_header_6 | ty_header_7 | ty_header_8 | ty_header_9 | ty_header_10

record DocumentCell =
  raw_content :: string
  additional_content :: "string \<rightharpoonup> py_value"
  cell_id :: int
  cell_type :: DocumentCellType

text \<open>
  \<^verbatim>\<open>_id_generator\<close> on the global \<^verbatim>\<open>_ID_COUNTER\<close>: the counter is incremented and its new
  value returned. The result is the identifier and the new counter.
\<close>

definition id_generator :: "int \<Rightarrow> int \<times> int" where
  "id_generator counter = (counter + 1, counter + 1)"

text \<open>
  The five checks of \<^verbatim>\<open>DocumentCell.__post_init__\<close>, in the order of the source; each
  gives the exception it raises, if any. In the check of external links,
  \<^verbatim>\<open>startswith\<close> is called on the value under \<^verbatim>\<open>"target"\<close>: a value that is not a string
  has no such method. The flag read there is \<^verbatim>\<open>APP_CONFIG.force_install\<close>.
\<close>

definition check_field :: "DocumentCell \<Rightarrow> py_error option" where
  "check_field self =
     (if cell_type self = ty_field \<and>
         (''name'' \<notin> dom (additional_content self) \<or> ''label'' \<notin> dom (additional_content self))
      then Some (ValueError ''Fields must contain name and text label'') else None)"

definition check_link :: "DocumentCell \<Rightarrow> py_error option" where
  "check_link self =
     (if cell_type self \<in> set [ty_link_text, ty_link_external] \<and>
         ''target'' \<notin> dom (additional_content self)
      then Some (ValueError ''Links must contain target information!'') else None)"

definition check_external :: "AppConfig \<Rightarrow> DocumentCell \<Rightarrow> py_error option" where
  "check_external cfg self =
     (if cell_type self = ty_link_external then
        (case additional_content self ''target'' of
           Some (PyStr target) \<Rightarrow>
             if \<not> startswith target ''https'' \<and> \<not> force_install cfg
             then Some (ValueError ''External links must contain https schema'') else None
         | _ \<Rightarrow> Some AttributeError)
      else None)"

definition check_code :: "DocumentCell \<Rightarrow> py_error option" where
  "check_code self =
     (if cell_type self = ty_code \<and> ''lang'' \<notin> dom (additional_content self)
      then Some (ValueError ''Code sections must contain language, at least empty key'') else None)"

definition check_image :: "DocumentCell \<Rightarrow> py_error option" where
  "check_image self =
     (if cell_type self = ty_image \<and> ''src'' \<notin> dom (additional_content self)
      then Some (ValueError ''Images must contain link to source, at least network'') else None)"

definition post_init :: "AppConfig \<Rightarrow> DocumentCell \<Rightarrow> py_error option" where
  "post_init cfg self =
     (case check_field self of Some e \<Rightarrow> Some e | None \<Rightarrow>
      case check_link self of Some e \<Rightarrow> Some e | None \<Rightarrow>
      case check_external cfg self of Some e \<Rightarrow> Some e | None \<Rightarrow>
      case check_code self of Some e \<Rightarrow> Some e | None \<Rightarrow>
      check_image self)"

text \<open>
  The constructor \<^verbatim>\<open>DocumentCell(raw_content, additional_content, id, type)\<close>: the
  generated \<^verbatim>\<open>__init__\<close> takes the identifier given or calls \<^verbatim>\<open>_id_generator\<close>, then
  runs \<^verbatim>\<open>__post_init__\<close>. The result is the cell or the exception, with the counter
  after the call (it has advanced even when the checks raise).
\<close>

definition new_DocumentCell ::
  "AppConfig \<Rightarrow> int \<Rightarrow> string \<Rightarrow> (string \<rightharpoonup> py_value) \<Rightarrow> int option \<Rightarrow> DocumentCellType \<Rightarrow>
   (py_error + DocumentCell) \<times> int" where
  "new_DocumentCell cfg counter raw content given_id ty =
     (let (i, counter') = (case given_id of Some i \<Rightarrow> (i, counter) | None \<Rightarrow> id_generator counter);
          self = \<lparr>raw_content = raw, additional_content = content, cell_id = i, cell_type = ty\<rparr>
      in case post_init cfg self of
           Some e \<Rightarrow> (Inl e, counter')
         | None \<Rightarrow> (Inr self, counter'))"

text \<open>
  The three static factories. \<^verbatim>\<open>create_external_link\<close> reads
  \<^verbatim>\<open>APP_CONFIG.ignore_compromised\<close> in a statement that does nothing.
\<close>

definition create_paragraph :: "AppConfig \<Rightarrow> int \<Rightarrow> string \<Rightarrow> bool \<Rightarrow> (py_error + DocumentCell) \<times> int" where
  "create_paragraph cfg counter txt centralized =
     new_DocumentCell cfg counter txt [''centralize'' \<mapsto> PyBool centralized] None ty_paragraph"

definition create_text_link ::
  "AppConfig \<Rightarrow> int \<Rightarrow> string \<Rightarrow> string \<Rightarrow> bool \<Rightarrow> bool \<Rightarrow> (py_error + DocumentCell) \<times> int" where
  "create_text_link cfg counter txt to as_class as_text =
     new_DocumentCell cfg counter txt
       [''to'' \<mapsto> PyStr to, ''as_class'' \<mapsto> PyBool as_class, ''as_text'' \<mapsto> PyBool as_text]
       None ty_link_text"

definition create_external_link ::
  "AppConfig \<Rightarrow> int \<Rightarrow> string \<Rightarrow> string \<Rightarrow> bool \<Rightarrow> bool \<Rightarrow> bool \<Rightarrow> bool \<Rightarrow> bool \<Rightarrow> bool \<Rightarrow> bool \<Rightarrow>
   bool \<Rightarrow> bool \<Rightarrow> (py_error + DocumentCell) \<times> int" where
  "create_external_link cfg counter txt to as_class as_text to_twitter to_meta to_github
       to_gitlab to_vk to_email to_slack =
     new_DocumentCell cfg counter txt
       [''to'' \<mapsto> PyStr to, ''as_class'' \<mapsto> PyBool as_class, ''as_text'' \<mapsto> PyBool as_text,
        ''to_twitter'' \<mapsto> PyBool to_twitter, ''to_meta'' \<mapsto> PyBool to_meta,
        ''to_github'' \<mapsto> PyBool to_github, ''to_gitlab'' \<mapsto> PyBool to_gitlab,
        ''to_vk'' \<mapsto> PyBool to_vk, ''to_email'' \<mapsto> PyBool to_email,
        ''to_slack'' \<mapsto> PyBool to_slack]
       None ty_link_external"

section \<open>The registry of language descriptors\<close>

text \<open>
  An entry of the plugin manifest (\<^verbatim>\<open>data["plugins"]\<close>) is a dictionary with the keys
  \<^verbatim>\<open>name\<close>, \<^verbatim>\<open>version\<close>, \<^verbatim>\<open>vendor\<close> and \<^verbatim>\<open>timestamp\<close>.
\<close>

record Plugin =
  plugin_name :: string
  plugin_version :: string
  plugin_vendor :: string
  plugin_timestamp :: string

text \<open>
  What \<^verbatim>\<open>open\<close> and \<^verbatim>\<open>pickle_load\<close> find at a descriptor's path: no file
  (\<^verbatim>\<open>FileNotFoundError\<close>, the one exception the loop handles), a file that does not
  unpickle (the exception leaves the loop), or a pickled descriptor.
\<close>

datatype plugin_file = Missing | Corrupt | Pickled LanguageSpecs

text \<open>
  \<^verbatim>\<open>AppResources\<close> keeps its two lists as class attributes: every instance appends to the
  same \<^verbatim>\<open>_languages\<close> (and \<^verbatim>\<open>_plugin_vendor\<close>, here \<open>plugin_vendor_list\<close>). The lines
  printed are collected beside them.
\<close>

record AppResources =
  languages :: "LanguageSpecs list"
  plugin_vendor_list :: "Vendor list"
  printed :: "string list"

definition print_line :: "string \<Rightarrow> AppResources \<Rightarrow> AppResources" where
  "print_line line res = res\<lparr>printed := printed res @ [line]\<rparr>"

definition plugin_path :: "AppConfig \<Rightarrow> Plugin \<Rightarrow> string" where
  "plugin_path cfg plugin = join (join (home_dir cfg) ''plugins'') (plugin_name plugin @ ''.obj'')"

text \<open>
  \<^verbatim>\<open>data.pop(plugin)\<close>, the first statement of the handler: the key passed is the
  manifest entry itself, a dictionary, and a dictionary is not hashable, so the lookup
  raises \<^verbatim>\<open>TypeError\<close> whatever \<open>data\<close> holds. The statements of the handler that follow
  it are kept in the loop below as the source has them.
\<close>

definition data_pop :: "Plugin list \<Rightarrow> Plugin \<Rightarrow> py_error + Plugin list" where
  "data_pop data plugin = Inl TypeError"

definition verbose_lines :: "AppConfig \<Rightarrow> Plugin \<Rightarrow> AppResources \<Rightarrow> AppResources" where
  "verbose_lines cfg plugin res =
     (if verbose cfg then
        print_line (''[dim][VERBOSE]'' @ [CHR 0x09] @ '' Timestamp: '' @ plugin_timestamp plugin)
          (print_line (''[dim][VERBOSE]'' @ [CHR 0x09] @ '' Vendor: '' @ plugin_vendor plugin)
            (print_line (''[dim][VERBOSE]'' @ [CHR 0x09] @ '' Version: '' @ plugin_version plugin)
              (print_line (''[dim][VERBOSE] Loading plugin '' @ plugin_name plugin) res)))
      else res)"

text \<open>
  The loop of \<^verbatim>\<open>AppResources.__init__\<close> over \<^verbatim>\<open>data["plugins"]\<close>. The dictionary \<open>data\<close>
  is represented by its list of plugins. \<open>store\<close> is the content of the
  plugin directory by path, \<open>ask\<close> the user's answer to \<^verbatim>\<open>Confirm.ask("Reinstall plugin?")\<close>
  and \<open>install\<close> the effect of calling the \<^verbatim>\<open>install\<close> command. The result is the
  exception that left the loop, if any, and the resources at that moment.
\<close>

fun load_plugins ::
  "AppConfig \<Rightarrow> (string \<Rightarrow> plugin_file) \<Rightarrow> (Plugin \<Rightarrow> bool) \<Rightarrow> (string \<Rightarrow> AppResources \<Rightarrow> AppResources) \<Rightarrow>
   Plugin list \<Rightarrow> Plugin list \<Rightarrow> AppResources \<Rightarrow> py_error option \<times> AppResources" where
  "load_plugins cfg store ask install data [] res = (None, res)"
| "load_plugins cfg store ask install data (plugin # rest) res =
     (let res1 = verbose_lines cfg plugin res in
      case store (plugin_path cfg plugin) of
        Pickled obj \<Rightarrow>
          load_plugins cfg store ask install data rest (res1\<lparr>languages := languages res1 @ [obj]\<rparr>)
      | Corrupt \<Rightarrow> (Some UnpicklingError, res1)
      | Missing \<Rightarrow>
          (case data_pop data plugin of
             Inl e \<Rightarrow> (Some e, res1)
           | Inr data' \<Rightarrow>
               (let res2 = print_line ''[bold red blink] PLUGIN IS DAMAGED!''
                             (print_line (''[bold red]Damaged plugin: '' @ plugin_name plugin) res1)
                in if always_yes cfg then
                     load_plugins cfg store ask install data rest
                       (install (plugin_vendor plugin @ '':'' @ plugin_name plugin) res2)
                   else if ask plugin then
                     load_plugins cfg store ask install data rest
                       (install (plugin_vendor plugin @ '':'' @ plugin_name plugin) res2)
                   else
                     load_plugins cfg store ask install data rest
                       (print_line ''[bold red blink] PLUGIN DELETED AND NOT LOADED! CONTINUE!'' res2))))"

text \<open>\<^verbatim>\<open>AppResources.__init__(data)\<close>: nothing to do for an empty manifest, else the loop.\<close>

definition AppResources_init ::
  "AppConfig \<Rightarrow> (string \<Rightarrow> plugin_file) \<Rightarrow> (Plugin \<Rightarrow> bool) \<Rightarrow> (string \<Rightarrow> AppResources \<Rightarrow> AppResources) \<Rightarrow>
   Plugin list \<Rightarrow> AppResources \<Rightarrow> py_error option \<times> AppResources" where
  "AppResources_init cfg store ask install data res =
     (if length data = 0 then (None, res)
      else load_plugins cfg store ask install data data res)"

text \<open>
  \<^verbatim>\<open>get_all_languages\<close> lowers the registered names; \<^verbatim>\<open>is_language_exists\<close> tests the
  name it is given, as given, for membership in that list.
\<close>

definition get_all_languages :: "AppResources \<Rightarrow> string list" where
  "get_all_languages self = map (\<lambda>lang. lower (language_name lang)) (languages self)"

definition is_language_exists :: "AppResources \<Rightarrow> string \<Rightarrow> bool" where
  "is_language_exists self lang = (lang \<in> set (get_all_languages self))"

section \<open>Example inputs\<close>

text \<open>
  The tree of the scan scenario: a root holding \<^verbatim>\<open>README.md\<close> and the subdirectories
  \<^verbatim>\<open>lib\<close> and \<^verbatim>\<open>.pytest_cache\<close>, each holding a \<^verbatim>\<open>README.md\<close>; in both orders in which
  the two subdirectories can be listed.
\<close>

definition scenario_tree :: fs_dir where
  "scenario_tree =
     Dir [''README.md'']
       [(''lib'', Dir [''README.md''] []), (''.pytest_cache'', Dir [''README.md''] [])]"

definition scenario_tree_swapped :: fs_dir where
  "scenario_tree_swapped =
     Dir [''README.md'']
       [(''.pytest_cache'', Dir [''README.md''] []), (''lib'', Dir [''README.md''] [])]"

text \<open>A tree with a package below a cache directory, every directory with a \<^verbatim>\<open>README.md\<close>.\<close>

definition cache_tree :: fs_dir where
  "cache_tree =
     Dir [''README.md'']
       [(''.tox'', Dir [''README.md''] [(''pkg'', Dir [''README.md''] [])]),
        (''lib'', Dir [''README.md''] [])]"

text \<open>A project root that also holds the marker file of a registered language.\<close>

definition marker_tree :: fs_dir where
  "marker_tree = Dir [''README.md'', ''setup.py''] []"

definition python_spec :: LanguageSpecs where
  "python_spec =
     \<lparr>language_name = ''Python'', file_extensions = [''py''], comments = [''#''],
      is_docs_after_func = True, project_files = [''setup.py''], vendors_API = []\<rparr>"

text \<open>
  The spec's \<open>specFor(markerFile)\<close> (its section 4.1: find the spec that declares this
  marker file, the first registered winning), written from the spec's words to compare
  the scanner with. The source defines no such lookup.
\<close>

definition spec_for :: "LanguageSpecs list \<Rightarrow> string \<Rightarrow> LanguageSpecs option" where
  "spec_for registry marker = find (\<lambda>s. marker \<in> set (project_files s)) registry"

definition example_config :: AppConfig where
  "example_config =
     \<lparr>home_dir = ''/home/user/.librarian'', force_install = False, ignore_compromised = False,
      always_yes = False, verbose = False\<rparr>"

definition empty_resources :: AppResources where
  "empty_resources = \<lparr>languages = [], plugin_vendor_list = [], printed = []\<rparr>"

definition example_plugin :: "string \<Rightarrow> Plugin" where
  "example_plugin n =
     \<lparr>plugin_name = n, plugin_version = ''0.0.1'', plugin_vendor = ''local'',
      plugin_timestamp = ''0''\<rparr>"

text \<open>A plugin directory that holds the listed descriptors and nothing else.\<close>

definition store_of :: "(string \<times> LanguageSpecs) list \<Rightarrow> string \<Rightarrow> plugin_file" where
  "store_of entries path = (case map_of entries path of None \<Rightarrow> Missing | Some obj \<Rightarrow> Pickled obj)"

definition example_install :: "string \<Rightarrow> AppResources \<Rightarrow> AppResources" where
  "example_install source res = print_line ''[green]Install!'' res"

definition example_vendor :: Vendor where
  "example_vendor =
     \<lparr>vendor_name = Some ''pypi'', vendor_version = Some ''0.0.1'', vendor_is_secure = Some ''yes'',
      vendor_login_method = Some ''token'',
      vendor_credentials = [(''login'', ''''), (''password'', ''''), (''token'', '''')]\<rparr>"

definition example_dependency :: Dependency where
  "example_dependency =
     \<lparr>dep_name = ''requests'', dep_version = ''2.31.0'', dep_vendor = example_vendor,
      dep_license = ''Apache-2.0'', dep_machine_name = ''requests'', dep_description = ''''\<rparr>"

definition example_local_vendor :: LocalVendor where
  "example_local_vendor =
     \<lparr>vendor_name = Some ''site-packages'', vendor_version = Some ''0.0.1'',
      vendor_is_secure = Some ''yes'', vendor_login_method = Some ''none'',
      vendor_credentials = [(''login'', ''''), (''password'', ''''), (''token'', '''')],
      locations = []\<rparr>"

definition c_spec :: LanguageSpecs where
  "c_spec =
     \<lparr>language_name = ''c'', file_extensions = [''c'', ''h''], comments = [''//''],
      is_docs_after_func = False, project_files = [''Makefile''], vendors_API = []\<rparr>"

definition registry_of :: "LanguageSpecs list \<Rightarrow> AppResources" where
  "registry_of specs = \<lparr>languages = specs, plugin_vendor_list = [], printed = []\<rparr>"

text \<open>A plugin directory with two descriptor files, both of the language \<^verbatim>\<open>Python\<close>.\<close>

definition two_python_store :: "string \<Rightarrow> plugin_file" where
  "two_python_store =
     store_of [(''/home/user/.librarian/plugins/python.obj'', python_spec),
               (''/home/user/.librarian/plugins/python3.obj'', python_spec)]"

section \<open>Properties of the scanner\<close>

lemma skip_path_iff: "skip_path p \<longleftrightarrow> (\<exists>c \<in> set CACHE_FOLDERS. str_in c p)"
  by (simp add: skip_path_def CACHE_FOLDERS_def)

lemma collect_positions_eq:
  "collect_positions es acc =
     acc @ map fst (filter (\<lambda>(dp, dn, fs). \<not> skip_path dp \<and> ''README.md'' \<in> set fs) es)"
  by (induction es acc rule: collect_positions.induct) auto

lemma walk_dirs_under:
  "walk p d = map (\<lambda>(q, e). (q, map fst (subdirs e), files e)) (dirs_under p d)"
  "walk_subdirs p ds = map (\<lambda>(q, e). (q, map fst (subdirs e), files e)) (dirs_under_subdirs p ds)"
  by (induction p d and p ds rule: walk_walk_subdirs.induct) auto

lemma positions_dirs_under:
  "collect_positions (walk p d) [] =
     map fst (filter (\<lambda>(q, e). \<not> skip_path q \<and> ''README.md'' \<in> set (files e)) (dirs_under p d))"
  by (simp add: collect_positions_eq walk_dirs_under filter_map comp_def case_prod_unfold)

lemma not_startswith_sep: "CHR ''/'' \<notin> set n \<Longrightarrow> \<not> startswith n ''/''"
  by (auto simp: startswith_def prefix_def)

lemma join_prefix: "\<not> startswith n ''/'' \<Longrightarrow> prefix p (join p n)"
  by (auto simp: join_def)

lemma join_suffix: "suffix n (join p n)"
  by (auto simp: join_def suffix_def)

text \<open>
  Below a directory with well-formed entry names, every path of the walk extends the
  path the walk started from.
\<close>

lemma dirs_under_prefix:
  "wf_fs d \<Longrightarrow> (q, e) \<in> set (dirs_under p d) \<Longrightarrow> prefix p q \<and> wf_fs e"
  "wf_subdirs ds \<Longrightarrow> (q, e) \<in> set (dirs_under_subdirs p ds) \<Longrightarrow> prefix p q \<and> wf_fs e"
proof (induction p d and p ds arbitrary: q e and q e rule: dirs_under_dirs_under_subdirs.induct)
  case (1 topdir fs ds)
  then show ?case by auto
next
  case (2 topdir)
  then show ?case by simp
next
  case (3 topdir dname d ds)
  from "3.prems"(1) have wf: "CHR ''/'' \<notin> set dname" "wf_fs d" "wf_subdirs ds"
    by simp_all
  from "3.prems"(2) consider
      (here) "(q, e) \<in> set (dirs_under (join topdir dname) d)"
    | (later) "(q, e) \<in> set (dirs_under_subdirs topdir ds)"
    by auto
  then show ?case
  proof cases
    case here
    with "3.IH"(1) wf have "prefix (join topdir dname) q" and "wf_fs e"
      by blast+
    moreover have "prefix topdir (join topdir dname)"
      using wf(1) by (simp add: join_prefix not_startswith_sep)
    ultimately show ?thesis
      by (meson prefix_order.trans)
  next
    case later
    with "3.IH"(2) wf show ?thesis
      by blast
  qed
qed

lemma str_in_prefix: "prefix p q \<Longrightarrow> str_in c p \<Longrightarrow> str_in c q"
  unfolding str_in_def by (meson prefix_imp_sublist sublist_order.order.trans)

text \<open>
  A substring whose last character does not occur in the appended part lies in the
  first part.
\<close>

lemma last_not_in_sublist:
  assumes "c \<noteq> []" and "last c \<notin> set t" and "sublist c (p @ t)"
  shows "sublist c p"
proof -
  obtain c' l where c: "c = c' @ [l]" and l: "l \<notin> set t"
    using assms(1,2) by (metis append_butlast_last_id)
  from assms(3) obtain ps ss where "p @ t = (ps @ c') @ (l # ss)"
    by (auto simp: sublist_def c)
  then obtain us where
    "(p = (ps @ c') @ us \<and> us @ t = l # ss) \<or> (p @ us = ps @ c' \<and> t = us @ (l # ss))"
    unfolding append_eq_append_conv2 by blast
  with l have us: "p = (ps @ c') @ us" "us @ t = l # ss"
    by auto
  from us(2) l obtain us' where "us = l # us'"
    by (cases us) auto
  with us(1) have "p = ps @ c @ us'"
    by (simp add: c)
  then show ?thesis
    by (auto simp: sublist_def)
qed

lemma skip_path_join_cache: "skip_path (join p ''.pytest_cache'')"
  unfolding skip_path_iff str_in_def CACHE_FOLDERS_def
  using join_suffix [of "''.pytest_cache''" p] by (auto intro: suffix_imp_sublist)

lemma skip_path_join_lib:
  assumes "skip_path (join p ''lib'')"
  shows "skip_path p"
proof -
  from assms obtain c where c: "c \<in> set CACHE_FOLDERS" "sublist c (join p ''lib'')"
    by (auto simp: skip_path_iff str_in_def)
  have "join p ''lib'' = p @ ''lib'' \<or> join p ''lib'' = p @ ''/lib''"
    by (simp add: join_def startswith_def)
  then obtain t where t: "join p ''lib'' = p @ t" "set t \<subseteq> set ''/lib''"
    by auto
  from c(1) have "c \<noteq> []" "last c \<notin> set ''/lib''"
    by (auto simp: CACHE_FOLDERS_def)
  with t c(2) have "sublist c p"
    using last_not_in_sublist [of c t p] by auto
  with c(1) show "skip_path p"
    by (auto simp: skip_path_iff str_in_def)
qed

text \<open>
  Claim C1, as the code has it: over a root directory that holds \<^verbatim>\<open>README.md\<close> and the
  subdirectories \<^verbatim>\<open>lib\<close> and \<^verbatim>\<open>.pytest_cache\<close>, each with a \<^verbatim>\<open>README.md\<close>, and whose own
  path holds no cache-folder name, \<open>load_project\<close> returns exactly two modules, the root
  itself and \<^verbatim>\<open>lib\<close>, in this order, and none at the cache path; whichever way the two
  subdirectories are listed.
\<close>

theorem scenario_scan_root_and_lib:
  assumes "\<not> skip_path path"
  shows "load_project path scenario_tree = Inr [load_module path, load_module (join path ''lib'')]
       \<and> load_project path scenario_tree_swapped = Inr [load_module path, load_module (join path ''lib'')]"
  using assms skip_path_join_lib [of path] skip_path_join_cache [of path]
  by (auto simp: load_project_def scenario_tree_def scenario_tree_swapped_def listdir_def)

theorem scenario_scan_root_and_lib_witness:
  "\<not> skip_path ''/proj''
   \<and> load_project ''/proj'' scenario_tree = Inr [load_module ''/proj'', load_module ''/proj/lib'']
   \<and> load_project ''/proj'' scenario_tree_swapped = Inr [load_module ''/proj'', load_module ''/proj/lib'']"
proof -
  have h: "\<not> skip_path ''/proj''"
    by code_simp
  have j: "join ''/proj'' ''lib'' = ''/proj/lib''"
    by code_simp
  from scenario_scan_root_and_lib [OF h] h show ?thesis
    by (simp add: j)
qed

text \<open>
  The scenario as claim C1 states it (exactly one module, at \<^verbatim>\<open>lib\<close>) fails: scanned at
  \<^verbatim>\<open>/proj\<close>, the result is the root and \<^verbatim>\<open>lib\<close>.
\<close>

theorem scenario_scan_counterexample:
  "load_project ''/proj'' scenario_tree = Inr [load_module ''/proj'', load_module ''/proj/lib'']
   \<and> load_project ''/proj'' scenario_tree \<noteq> Inr [load_module ''/proj/lib'']"
  by code_simp

text \<open>
  Claim C8: whatever tree is scanned, no module is returned at a path that holds a
  configured cache-folder name; and in a tree with well-formed entry names, for a
  directory \<open>d\<close> met at a path \<open>q\<close> that holds such a name, no directory below \<open>d\<close>
  (nor \<open>d\<close> itself) is returned, even if it holds \<^verbatim>\<open>README.md\<close>.
\<close>

theorem cache_paths_never_returned:
  assumes "load_project path root = Inr modules" and "c \<in> set CACHE_FOLDERS"
  shows "(\<forall>m \<in> set modules. \<not> str_in c (mod_name m))
       \<and> (wf_fs root \<and> (q, d) \<in> set (dirs_under path root) \<and> str_in c q
            \<and> (q', d') \<in> set (dirs_under q d)
          \<longrightarrow> q' \<notin> mod_name ` set modules)"
proof -
  from assms(1) have modules: "modules = map load_module (collect_positions (walk path root) [])"
    by (auto simp: load_project_def split: if_splits)
  have names: "mod_name ` set modules \<subseteq> {p. \<not> skip_path p}"
    by (auto simp: modules collect_positions_eq load_module_def)
  have first: "\<forall>m \<in> set modules. \<not> str_in c (mod_name m)"
    using names assms(2) by (auto simp: skip_path_iff)
  have second: "q' \<notin> mod_name ` set modules"
    if "wf_fs root" "(q, d) \<in> set (dirs_under path root)" "str_in c q"
       "(q', d') \<in> set (dirs_under q d)"
  proof -
    from that(1,2) have "wf_fs d"
      using dirs_under_prefix(1) by blast
    with that(4) have "prefix q q'"
      using dirs_under_prefix(1) by blast
    with that(3) have "str_in c q'"
      using str_in_prefix by blast
    with assms(2) have "skip_path q'"
      by (auto simp: skip_path_iff)
    with names show ?thesis
      by auto
  qed
  from first second show ?thesis
    by blast
qed

theorem cache_paths_never_returned_witness:
  "load_project ''/proj'' cache_tree = Inr [load_module ''/proj'', load_module ''/proj/lib'']
   \<and> ''.tox'' \<in> set CACHE_FOLDERS
   \<and> wf_fs cache_tree
   \<and> (''/proj/.tox'', Dir [''README.md''] [(''pkg'', Dir [''README.md''] [])]) \<in> set (dirs_under ''/proj'' cache_tree)
   \<and> str_in ''.tox'' ''/proj/.tox''
   \<and> (''/proj/.tox/pkg'', Dir [''README.md''] [])
        \<in> set (dirs_under ''/proj/.tox'' (Dir [''README.md''] [(''pkg'', Dir [''README.md''] [])]))
   \<and> \<not> str_in ''.tox'' (mod_name (load_module ''/proj/lib''))
   \<and> ''/proj/.tox/pkg'' \<notin> mod_name ` set [load_module ''/proj'', load_module ''/proj/lib'']"
proof -
  have 1: "load_project ''/proj'' cache_tree = Inr [load_module ''/proj'', load_module ''/proj/lib'']"
    by code_simp
  have 2: "''.tox'' \<in> set CACHE_FOLDERS"
    by code_simp
  have 3: "wf_fs cache_tree"
    by code_simp
  have 4: "(''/proj/.tox'', Dir [''README.md''] [(''pkg'', Dir [''README.md''] [])]) \<in> set (dirs_under ''/proj'' cache_tree)"
    by code_simp
  have 5: "str_in ''.tox'' ''/proj/.tox''"
    by code_simp
  have 6: "(''/proj/.tox/pkg'', Dir [''README.md''] [])
        \<in> set (dirs_under ''/proj/.tox'' (Dir [''README.md''] [(''pkg'', Dir [''README.md''] [])]))"
    by code_simp
  from cache_paths_never_returned [OF 1 2,
      of "''/proj/.tox''" "Dir [''README.md''] [(''pkg'', Dir [''README.md''] [])]"
         "''/proj/.tox/pkg''" "Dir [''README.md''] []"] 1 2 3 4 5 6
  show ?thesis
    by simp
qed

text \<open>
  Claim C9, as the code has it: the scanner builds one module for every directory of
  the walk that is not skipped and holds \<^verbatim>\<open>README.md\<close>, in the order of the walk, and
  drops none; each module has the directory's path as its name and as its language,
  and no language descriptor (\<^verbatim>\<open>None\<close>). No registry is consulted and no project
  loader is called.
\<close>

theorem scanner_modules_unresolved:
  assumes "load_project path root = Inr modules"
  shows "map mod_name modules =
           map fst (filter (\<lambda>(q, d). \<not> skip_path q \<and> ''README.md'' \<in> set (files d))
                      (dirs_under path root))
       \<and> (\<forall>m \<in> set modules. mod_language_specs m = None \<and> mod_language m = mod_name m)"
proof -
  from assms have modules: "modules = map load_module (collect_positions (walk path root) [])"
    by (auto simp: load_project_def split: if_splits)
  have "map mod_name modules = collect_positions (walk path root) []"
    by (simp add: modules comp_def load_module_def)
  moreover have "\<forall>m \<in> set modules. mod_language_specs m = None \<and> mod_language m = mod_name m"
    by (auto simp: modules load_module_def)
  ultimately show ?thesis
    by (simp add: positions_dirs_under)
qed

theorem scanner_modules_unresolved_witness:
  "load_project ''/proj'' marker_tree = Inr [load_module ''/proj'']
   \<and> map mod_name [load_module ''/proj''] = [''/proj'']
   \<and> mod_language_specs (load_module ''/proj'') = None
   \<and> mod_language (load_module ''/proj'') = ''/proj''"
proof -
  have 1: "load_project ''/proj'' marker_tree = Inr [load_module ''/proj'']"
    by code_simp
  have 2: "map fst (filter (\<lambda>(q, d). \<not> skip_path q \<and> ''README.md'' \<in> set (files d))
                      (dirs_under ''/proj'' marker_tree)) = [''/proj'']"
    by code_simp
  from scanner_modules_unresolved [OF 1] 1 2 show ?thesis
    by simp
qed

text \<open>
  Claim C9 as stated fails: with a registered descriptor that declares the marker file
  \<^verbatim>\<open>setup.py\<close>, the module built for a project root holding that file carries no
  descriptor.
\<close>

theorem scanner_resolution_counterexample:
  "spec_for [python_spec] ''setup.py'' = Some python_spec
   \<and> load_project ''/proj'' marker_tree = Inr [load_module ''/proj'']
   \<and> mod_language_specs (load_module ''/proj'') \<noteq> spec_for [python_spec] ''setup.py''"
  by code_simp

section \<open>Properties of the registry\<close>

lemma languages_verbose_lines [simp]: "languages (verbose_lines cfg p res) = languages res"
  by (simp add: verbose_lines_def print_line_def)

lemma load_plugins_append:
  "\<forall>p \<in> set ps. store (plugin_path cfg p) = Pickled (spec_of p) \<Longrightarrow>
   fst (load_plugins cfg store ask install data ps res) = None \<and>
   languages (snd (load_plugins cfg store ask install data ps res)) = languages res @ map spec_of ps"
  by (induction ps arbitrary: res) (simp_all add: Let_def)

lemma load_plugins_missing:
  "plugin \<in> set ps \<Longrightarrow> store (plugin_path cfg plugin) = Missing \<Longrightarrow>
   fst (load_plugins cfg store ask install data ps res) \<noteq> None"
  by (induction ps arbitrary: res) (auto simp: Let_def data_pop_def split: plugin_file.splits)

lemma lower_char_idem: "lower_char (lower_char c) = lower_char c"
  by (simp add: lower_char_def Let_def)

lemma lower_idem: "lower (lower s) = lower s"
  by (simp add: lower_def lower_char_idem)

text \<open>
  Claim C3, on the code: when the descriptor file of a listed plugin is missing, the
  handler's first statement raises \<^verbatim>\<open>TypeError\<close>, which leaves the constructor. For a
  manifest of that one plugin the load ends with the exception, nothing loaded and no
  damaged-plugin line printed (only the verbose lines, when asked for); and in any manifest
  that lists the plugin the load ends with an exception.
\<close>

theorem missing_descriptor_aborts_load:
  assumes "store (plugin_path cfg plugin) = Missing"
  shows "AppResources_init cfg store ask install [plugin] res
           = (Some TypeError, verbose_lines cfg plugin res)
       \<and> (plugin \<in> set data
          \<longrightarrow> fst (AppResources_init cfg store ask install data res) \<noteq> None)"
proof -
  have "AppResources_init cfg store ask install [plugin] res
          = (Some TypeError, verbose_lines cfg plugin res)"
    using assms by (simp add: AppResources_init_def Let_def data_pop_def)
  moreover have "fst (AppResources_init cfg store ask install data res) \<noteq> None"
    if "plugin \<in> set data"
  proof -
    from that have "data \<noteq> []"
      by auto
    with that assms show ?thesis
      by (simp add: AppResources_init_def load_plugins_missing)
  qed
  ultimately show ?thesis
    by blast
qed

theorem missing_descriptor_aborts_load_witness:
  "store_of [] (plugin_path example_config (example_plugin ''python'')) = Missing
   \<and> AppResources_init example_config (store_of []) (\<lambda>p. False) example_install
        [example_plugin ''python''] empty_resources
       = (Some TypeError, empty_resources)
   \<and> fst (AppResources_init example_config (store_of []) (\<lambda>p. False) example_install
        [example_plugin ''c'', example_plugin ''python''] empty_resources) \<noteq> None"
proof -
  have h: "store_of [] (plugin_path example_config (example_plugin ''python'')) = Missing"
    by (simp add: store_of_def)
  have v: "verbose_lines example_config (example_plugin ''python'') empty_resources = empty_resources"
    by (simp add: verbose_lines_def example_config_def)
  from missing_descriptor_aborts_load
         [where store = "store_of []" and cfg = example_config
            and plugin = "example_plugin ''python''" and ask = "\<lambda>p. False"
            and install = example_install and res = empty_resources
            and data = "[example_plugin ''c'', example_plugin ''python'']"] h v
  show ?thesis
    by simp
qed

lemma isascii_lower: "isascii s \<Longrightarrow> isascii (lower s)"
  by (induction s) (auto simp: isascii_def lower_def lower_char_def Let_def)

text \<open>
  Claim C5, as the code has it, for registries whose language names are ASCII:
  \<open>is_language_exists\<close> lowers the registered names only. Its answer is the same for
  two such registries that hold the same language names up to capitalisation and order
  of registration; the name asked for is compared as given, so only a name that is
  already in lower case (and ASCII) can be known.
\<close>

theorem language_known_registered_case_and_order:
  assumes "\<forall>s \<in> set (languages r). isascii (language_name s)"
    and "\<forall>s \<in> set (languages r'). isascii (language_name s)"
  shows "(mset (map (\<lambda>s. lower (language_name s)) (languages r'))
            = mset (map (\<lambda>s. lower (language_name s)) (languages r))
          \<longrightarrow> is_language_exists r' lang = is_language_exists r lang)
       \<and> (is_language_exists r lang \<longrightarrow> isascii lang \<and> lower lang = lang)"
proof -
  have "is_language_exists r' lang = is_language_exists r lang"
    if "mset (map (\<lambda>s. lower (language_name s)) (languages r'))
          = mset (map (\<lambda>s. lower (language_name s)) (languages r))"
  proof -
    from that have "set (get_all_languages r') = set (get_all_languages r)"
      unfolding get_all_languages_def by (rule mset_eq_setD)
    then show ?thesis
      by (simp add: is_language_exists_def)
  qed
  moreover have "isascii lang \<and> lower lang = lang" if "is_language_exists r lang"
  proof -
    from that obtain s where s: "s \<in> set (languages r)" "lang = lower (language_name s)"
      by (auto simp: is_language_exists_def get_all_languages_def)
    from s(1) assms(1) have "isascii (language_name s)"
      by blast
    with s(2) show ?thesis
      by (simp add: isascii_lower lower_idem)
  qed
  ultimately show ?thesis
    by blast
qed

theorem language_known_registered_case_and_order_witness:
  "isascii ''Python'' \<and> isascii ''PYTHON'' \<and> isascii ''c''
   \<and> is_language_exists (registry_of [c_spec, python_spec\<lparr>language_name := ''PYTHON''\<rparr>]) ''python''
     = is_language_exists (registry_of [python_spec, c_spec]) ''python''
   \<and> is_language_exists (registry_of [python_spec, c_spec]) ''python''
   \<and> isascii ''python''
   \<and> lower ''python'' = ''python''"
proof -
  have ascii: "isascii ''Python''" "isascii ''PYTHON''" "isascii ''c''"
    by code_simp+
  have r: "\<forall>s \<in> set (languages (registry_of [python_spec, c_spec])). isascii (language_name s)"
    using ascii by (simp add: registry_of_def python_spec_def c_spec_def)
  have r': "\<forall>s \<in> set (languages (registry_of [c_spec, python_spec\<lparr>language_name := ''PYTHON''\<rparr>])).
              isascii (language_name s)"
    using ascii by (simp add: registry_of_def python_spec_def c_spec_def)
  have names: "map (\<lambda>s. lower (language_name s))
                 (languages (registry_of [c_spec, python_spec\<lparr>language_name := ''PYTHON''\<rparr>]))
                 = [''c'', ''python'']"
       "map (\<lambda>s. lower (language_name s)) (languages (registry_of [python_spec, c_spec]))
                 = [''python'', ''c'']"
    by code_simp+
  have known: "is_language_exists (registry_of [python_spec, c_spec]) ''python''"
    by code_simp
  from language_known_registered_case_and_order [OF r r', of "''python''"] known ascii
  show ?thesis
    by (simp add: names)
qed

text \<open>
  Claim C5 as stated fails: with \<^verbatim>\<open>Python\<close> registered, the lower-case name is known
  and another capitalisation of the same name is not.
\<close>

theorem language_known_counterexample:
  "lower ''PYTHON'' = lower ''python''
   \<and> is_language_exists (registry_of [python_spec]) ''python''
   \<and> \<not> is_language_exists (registry_of [python_spec]) ''PYTHON''"
  by code_simp

text \<open>
  Claim C6, as the code has it: a load whose descriptor files are all present ends
  without an exception and appends every descriptor to the catalog, in the order of the
  manifest; the entries already there stay, whatever their names, and a descriptor whose
  name is already registered becomes one more entry.
\<close>

theorem load_appends_every_descriptor:
  assumes "\<forall>p \<in> set data. store (plugin_path cfg p) = Pickled (spec_of p)"
  shows "fst (AppResources_init cfg store ask install data res) = None
       \<and> languages (snd (AppResources_init cfg store ask install data res))
           = languages res @ map spec_of data"
proof (cases "data = []")
  case True
  then show ?thesis
    by (simp add: AppResources_init_def)
next
  case False
  with load_plugins_append [OF assms] show ?thesis
    by (simp add: AppResources_init_def)
qed

theorem load_appends_every_descriptor_witness:
  "two_python_store (plugin_path example_config (example_plugin ''python'')) = Pickled python_spec
   \<and> two_python_store (plugin_path example_config (example_plugin ''python3'')) = Pickled python_spec
   \<and> fst (AppResources_init example_config two_python_store (\<lambda>p. False) example_install
        [example_plugin ''python'', example_plugin ''python3''] (registry_of [python_spec])) = None
   \<and> languages (snd (AppResources_init example_config two_python_store (\<lambda>p. False) example_install
        [example_plugin ''python'', example_plugin ''python3''] (registry_of [python_spec])))
       = [python_spec, python_spec, python_spec]"
proof -
  have 1: "two_python_store (plugin_path example_config (example_plugin ''python'')) = Pickled python_spec"
    by code_simp
  have 2: "two_python_store (plugin_path example_config (example_plugin ''python3'')) = Pickled python_spec"
    by code_simp
  have h: "\<forall>p \<in> set [example_plugin ''python'', example_plugin ''python3''].
             two_python_store (plugin_path example_config p) = Pickled ((\<lambda>p. python_spec) p)"
    using 1 2 by simp
  from load_appends_every_descriptor [OF h, of "\<lambda>p. False" example_install "registry_of [python_spec]"] 1 2
  show ?thesis
    by (simp add: registry_of_def)
qed

text \<open>
  Claim C6 as stated fails: after loading two plugins whose descriptors are both of the
  language \<^verbatim>\<open>Python\<close>, the catalog holds two entries of that name.
\<close>

theorem language_names_unique_counterexample:
  "fst (AppResources_init example_config two_python_store (\<lambda>p. False) example_install
        [example_plugin ''python'', example_plugin ''python3''] empty_resources) = None
   \<and> map language_name (languages (snd (AppResources_init example_config two_python_store
        (\<lambda>p. False) example_install
        [example_plugin ''python'', example_plugin ''python3''] empty_resources)))
       = [''Python'', ''Python'']"
  by code_simp

section \<open>Properties of document cells\<close>

lemma post_init_external:
  "content ''target'' = Some (PyStr target) \<Longrightarrow>
   post_init cfg \<lparr>raw_content = raw, additional_content = content, cell_id = i, cell_type = ty_link_external\<rparr>
     = (if \<not> startswith target ''https'' \<and> \<not> force_install cfg
        then Some (ValueError ''External links must contain https schema'') else None)"
  by (auto simp: post_init_def check_field_def check_link_def check_external_def check_code_def
      check_image_def)

lemma create_paragraph_ok:
  "create_paragraph cfg counter txt centralized =
     (Inr \<lparr>raw_content = txt, additional_content = [''centralize'' \<mapsto> PyBool centralized],
           cell_id = counter + 1, cell_type = ty_paragraph\<rparr>, counter + 1)"
  by (simp add: create_paragraph_def new_DocumentCell_def id_generator_def post_init_def
      check_field_def check_link_def check_external_def check_code_def check_image_def)

text \<open>
  Claim C4, on the code: the two link factories store the target under the key
  \<^verbatim>\<open>"to"\<close>, and the check they run through asks for the key \<^verbatim>\<open>"target"\<close>: for every
  text and every target, \<open>create_text_link\<close> and \<open>create_external_link\<close> raise
  \<^verbatim>\<open>ValueError\<close> and build no cell (the identifier counter has advanced by one).
\<close>

theorem link_factories_always_raise:
  "create_text_link cfg counter txt to as_class as_text
     = (Inl (ValueError ''Links must contain target information!''), counter + 1)
   \<and> create_external_link cfg counter txt to as_class as_text to_twitter to_meta to_github
       to_gitlab to_vk to_email to_slack
     = (Inl (ValueError ''Links must contain target information!''), counter + 1)"
  by (simp add: create_text_link_def create_external_link_def new_DocumentCell_def
      id_generator_def post_init_def check_field_def check_link_def)

theorem link_factories_always_raise_witness:
  "create_text_link example_config 0 ''docs'' ''https://example.org'' False False
     = (Inl (ValueError ''Links must contain target information!''), 1)
   \<and> create_external_link example_config 0 ''docs'' ''https://example.org'' False False False
       False False False False False False
     = (Inl (ValueError ''Links must contain target information!''), 1)"
  using link_factories_always_raise [of example_config 0 "''docs''" "''https://example.org''"
      False False False False False False False False False]
  by simp

lemma check_external_ignore_compromised:
  "check_external (cfg\<lparr>ignore_compromised := b\<rparr>) self = check_external cfg self"
  by (simp add: check_external_def split: option.splits py_value.splits)

lemma post_init_ignore_compromised:
  "post_init (cfg\<lparr>ignore_compromised := b\<rparr>) self = post_init cfg self"
  unfolding post_init_def check_external_ignore_compromised ..

text \<open>
  Claim C7: constructing a cell of type \<^verbatim>\<open>link_external\<close> whose \<^verbatim>\<open>target\<close> is a string
  that does not start with \<^verbatim>\<open>https\<close> raises \<^verbatim>\<open>ValueError\<close> unless the caller has forced
  the operation, that is unless the configuration's flag \<^verbatim>\<open>force_install\<close> (the option
  \<^verbatim>\<open>--force\<close>) is set; with the flag set the same construction gives the cell. The flag
  \<^verbatim>\<open>ignore_compromised\<close> (the option \<^verbatim>\<open>--not-secure\<close>) has no part in it.
\<close>

theorem external_link_https_unless_forced:
  assumes "content ''target'' = Some (PyStr target)" and "\<not> startswith target ''https''"
  shows "(\<not> force_install cfg \<longrightarrow>
            fst (new_DocumentCell cfg counter raw content given_id ty_link_external)
              = Inl (ValueError ''External links must contain https schema''))
       \<and> (force_install cfg \<longrightarrow>
            fst (new_DocumentCell cfg counter raw content given_id ty_link_external)
              = Inr \<lparr>raw_content = raw, additional_content = content,
                     cell_id = (case given_id of Some i \<Rightarrow> i | None \<Rightarrow> counter + 1),
                     cell_type = ty_link_external\<rparr>)
       \<and> new_DocumentCell (cfg\<lparr>ignore_compromised := b\<rparr>) counter raw content given_id ty_link_external
           = new_DocumentCell cfg counter raw content given_id ty_link_external"
proof -
  have "new_DocumentCell (cfg\<lparr>ignore_compromised := b\<rparr>) counter raw content given_id ty_link_external
          = new_DocumentCell cfg counter raw content given_id ty_link_external"
    by (simp add: new_DocumentCell_def post_init_ignore_compromised)
  moreover have "fst (new_DocumentCell cfg counter raw content given_id ty_link_external)
      = (if force_install cfg
         then Inr \<lparr>raw_content = raw, additional_content = content,
                    cell_id = (case given_id of Some i \<Rightarrow> i | None \<Rightarrow> counter + 1),
                    cell_type = ty_link_external\<rparr>
         else Inl (ValueError ''External links must contain https schema''))"
    using assms
    by (cases given_id) (simp_all add: new_DocumentCell_def id_generator_def post_init_external)
  ultimately show ?thesis
    by simp
qed

theorem external_link_https_unless_forced_witness:
  "[''target'' \<mapsto> PyStr ''http://example.org''] ''target'' = Some (PyStr ''http://example.org'')
   \<and> \<not> startswith ''http://example.org'' ''https''
   \<and> fst (new_DocumentCell example_config 0 ''home'' [''target'' \<mapsto> PyStr ''http://example.org'']
             None ty_link_external)
       = Inl (ValueError ''External links must contain https schema'')
   \<and> fst (new_DocumentCell (example_config\<lparr>ignore_compromised := True\<rparr>) 0 ''home''
             [''target'' \<mapsto> PyStr ''http://example.org''] None ty_link_external)
       = Inl (ValueError ''External links must contain https schema'')
   \<and> fst (new_DocumentCell (example_config\<lparr>force_install := True\<rparr>) 0 ''home''
             [''target'' \<mapsto> PyStr ''http://example.org''] None ty_link_external)
       = Inr \<lparr>raw_content = ''home'', additional_content = [''target'' \<mapsto> PyStr ''http://example.org''],
              cell_id = 1, cell_type = ty_link_external\<rparr>"
proof -
  have 1: "[''target'' \<mapsto> PyStr ''http://example.org''] ''target'' = Some (PyStr ''http://example.org'')"
    by simp
  have 2: "\<not> startswith ''http://example.org'' ''https''"
    by code_simp
  have 3: "\<not> force_install example_config" "force_install (example_config\<lparr>force_install := True\<rparr>)"
    by (simp_all add: example_config_def)
  note inst = external_link_https_unless_forced
         [where content = "[''target'' \<mapsto> PyStr ''http://example.org'']"
            and target = "''http://example.org''" and counter = 0 and raw = "''home''"
            and given_id = None]
  from inst [where cfg = example_config and b = True]
       inst [where cfg = "example_config\<lparr>force_install := True\<rparr>" and b = False] 2 3
  show ?thesis
    by simp
qed

section \<open>Properties of vendors and dependencies\<close>

text \<open>
  Claim C2, on the code: \<open>to_json\<close> puts the vendor object itself under \<^verbatim>\<open>"version"\<close>,
  so for every dependency the export raises (\<^verbatim>\<open>TypeError\<close> from \<^verbatim>\<open>dumps\<close>, or
  \<^verbatim>\<open>AttributeError\<close> when the vendor has no \<^verbatim>\<open>_name\<close>) and returns no JSON to read back.
\<close>

theorem to_json_always_raises:
  "to_json d = Inl (case vendor_name (dep_vendor d) of None \<Rightarrow> AttributeError | Some n \<Rightarrow> TypeError)
   \<and> (\<forall>j. to_json d \<noteq> Inr j)"
  by (simp add: to_json_def dumps_def split: option.splits)

theorem to_json_always_raises_witness:
  "to_json example_dependency = Inl TypeError"
  using to_json_always_raises [of example_dependency]
  by (simp add: example_dependency_def example_vendor_def)

text \<open>
  Claim C10, on the code: \<open>find\<close> of \<^verbatim>\<open>LocalVendor\<close> is the dummy of \<^verbatim>\<open>typing.overload\<close>;
  for a vendor with no registered search paths, every name and every version (given or
  not), the call raises \<^verbatim>\<open>NotImplementedError\<close> and returns nothing.
\<close>

theorem local_find_raises:
  assumes "locations v = []"
  shows "LocalVendor_find v dname version = Inl NotImplementedError"
  by (simp add: LocalVendor_find_def overload_dummy_def)

theorem local_find_raises_witness:
  "locations example_local_vendor = []
   \<and> LocalVendor_find example_local_vendor ''requests'' None = Inl NotImplementedError
   \<and> LocalVendor_find example_local_vendor ''requests'' (Some ''2.31.0'') = Inl NotImplementedError"
proof -
  have h: "locations example_local_vendor = []"
    by (simp add: example_local_vendor_def)
  from local_find_raises [OF h, of "''requests''" None]
       local_find_raises [OF h, of "''requests''" "Some ''2.31.0''"] h
  show ?thesis
    by simp
qed

end
